theory Spec2Isabelle
  imports Complex_Main
begin

section \<open>JavaScript values held by the page\<close>

text \<open>
  \<^verbatim>\<open>App.jsx\<close> keeps five pieces of React state and talks to the backend through two
  \<^verbatim>\<open>axios.post\<close> calls. The bodies that come back are whatever the backend sent, so the
  model carries JavaScript values: the results of \<^verbatim>\<open>JSON.parse\<close>, a plain string for a
  body that is not JSON, and \<^verbatim>\<open>undefined\<close> for a property that is not there.
  A finite number is held as the rational it denotes (the two zeros are one value, both
  falsy); an object is the list of its own properties in insertion order, each key once.
\<close>

datatype number = Finite rat | PosInfinity | NegInfinity | NaN

datatype jsvalue =
    Undefined
  | Null
  | Boolean bool
  | Number number
  | String string
  | Array "jsvalue list"
  | Object "(string \<times> jsvalue) list"

text \<open>
  \<^verbatim>\<open>!v\<close> is true exactly for the falsy values: \<^verbatim>\<open>undefined\<close>, \<^verbatim>\<open>null\<close>, \<^verbatim>\<open>false\<close>,
  \<^verbatim>\<open>0\<close>, \<^verbatim>\<open>NaN\<close> and the empty string. Every array and every object is truthy.
\<close>

fun truthy :: "jsvalue \<Rightarrow> bool" where
  "truthy Undefined = False"
| "truthy Null = False"
| "truthy (Boolean b) = b"
| "truthy (Number (Finite q)) = (q \<noteq> 0)"
| "truthy (Number PosInfinity) = True"
| "truthy (Number NegInfinity) = True"
| "truthy (Number NaN) = False"
| "truthy (String s) = (s \<noteq> [])"
| "truthy (Array xs) = True"
| "truthy (Object kvs) = True"

datatype js_error = AxiosError | TypeError

text \<open>
  The read \<^verbatim>\<open>response.data.answer\<close> (line 57). On \<^verbatim>\<open>null\<close> and \<^verbatim>\<open>undefined\<close> a property
  read throws a TypeError. A boolean, a number, a string and an array have no property
  of that name, own or inherited, so the read gives \<^verbatim>\<open>undefined\<close>; so does an object
  without the key.
\<close>

fun data_answer :: "jsvalue \<Rightarrow> js_error + jsvalue" where
  "data_answer Undefined = Inl TypeError"
| "data_answer Null = Inl TypeError"
| "data_answer (Object kvs) =
     (case map_of kvs ''answer'' of None \<Rightarrow> Inr Undefined | Some v \<Rightarrow> Inr v)"
| "data_answer v = Inr Undefined"

section \<open>The component state and its effects\<close>

text \<open>
  The five \<^verbatim>\<open>useState\<close> cells of lines 5 to 9. \<^verbatim>\<open>selectedAudio\<close> and \<^verbatim>\<open>question\<close> only
  ever hold strings (a file's url, the text of the input box); \<^verbatim>\<open>summary\<close> and
  \<^verbatim>\<open>answer\<close> hold what the backend returned.
\<close>

record session =
  selectedAudio :: string
  question :: string
  answer :: jsvalue
  summary :: jsvalue
  loading :: bool

definition initial :: session where
  "initial = \<lparr> selectedAudio = [], question = [], answer = String [],
               summary = Null, loading = False \<rparr>"

text \<open>What a handler does besides writing state: a dialog, a console line, a request.\<close>

datatype effect =
    Alert string
  | ConsoleError string js_error
  | Post string jsvalue

record page =
  state :: session
  trace :: "effect list"

definition alert :: "string \<Rightarrow> page \<Rightarrow> page" where
  "alert msg p = p\<lparr> trace := trace p @ [Alert msg] \<rparr>"

definition console_error :: "string \<Rightarrow> js_error \<Rightarrow> page \<Rightarrow> page" where
  "console_error msg e p = p\<lparr> trace := trace p @ [ConsoleError msg e] \<rparr>"

definition axios_post :: "string \<Rightarrow> jsvalue \<Rightarrow> page \<Rightarrow> page" where
  "axios_post url body p = p\<lparr> trace := trace p @ [Post url body] \<rparr>"

definition setSelectedAudio :: "string \<Rightarrow> page \<Rightarrow> page" where
  "setSelectedAudio v p = p\<lparr> state := (state p)\<lparr> selectedAudio := v \<rparr> \<rparr>"

definition setQuestion :: "string \<Rightarrow> page \<Rightarrow> page" where
  "setQuestion v p = p\<lparr> state := (state p)\<lparr> question := v \<rparr> \<rparr>"

definition setAnswer :: "jsvalue \<Rightarrow> page \<Rightarrow> page" where
  "setAnswer v p = p\<lparr> state := (state p)\<lparr> answer := v \<rparr> \<rparr>"

definition setSummary :: "jsvalue \<Rightarrow> page \<Rightarrow> page" where
  "setSummary v p = p\<lparr> state := (state p)\<lparr> summary := v \<rparr> \<rparr>"

definition setLoading :: "bool \<Rightarrow> page \<Rightarrow> page" where
  "setLoading v p = p\<lparr> state := (state p)\<lparr> loading := v \<rparr> \<rparr>"

definition network_calls :: "effect list \<Rightarrow> effect list" where
  "network_calls es = filter (\<lambda>e. case e of Post url body \<Rightarrow> True | _ \<Rightarrow> False) es"

section \<open>The two handlers\<close>

text \<open>
  An \<^verbatim>\<open>async\<close> handler runs in two parts. The first runs at the click, up to the
  \<^verbatim>\<open>await\<close>: it either returns at the guard or leaves a request outstanding. The second
  runs when the promise of \<^verbatim>\<open>axios.post\<close> settles, on the page as it is by then: the
  promise resolves with the response (its \<^verbatim>\<open>data\<close> is kept here) or rejects, which is
  what axios does on a transport error and on a status outside 2xx.
\<close>

datatype outcome = Resolved jsvalue | Rejected js_error

datatype suspension = Returned | Outstanding

text \<open>\<^verbatim>\<open>handleTranscription\<close>, lines 26 to 44.\<close>

definition handleTranscription_start :: "page \<Rightarrow> suspension \<times> page" where
  "handleTranscription_start p =
     (if selectedAudio (state p) = [] then
        (Returned, alert ''Please select an audio file.'' p)
      else
        (Outstanding,
         axios_post ''http://localhost:5000/start-transcription''
           (Object [(''audioUrl'', String (selectedAudio (state p)))])
           (setLoading True p)))"

definition transcription_try :: "outcome \<Rightarrow> page \<Rightarrow> js_error + page" where
  "transcription_try r p =
     (case r of
        Rejected e \<Rightarrow> Inl e
      | Resolved response_data \<Rightarrow> Inr (setSummary response_data p))"

definition transcription_catch :: "js_error \<Rightarrow> page \<Rightarrow> page" where
  "transcription_catch e p =
     alert ''Failed to process the audio file.''
       (console_error ''Error starting transcription:'' e p)"

definition handleTranscription_settle :: "outcome \<Rightarrow> page \<Rightarrow> page" where
  "handleTranscription_settle r p =
     setLoading False
       (case transcription_try r p of
          Inr p' \<Rightarrow> p'
        | Inl e \<Rightarrow> transcription_catch e p)"

text \<open>The handler run from the click to its end, nothing else touching the page meanwhile.\<close>

definition handleTranscription :: "outcome \<Rightarrow> page \<Rightarrow> page" where
  "handleTranscription r p =
     (case handleTranscription_start p of
        (Returned, p') \<Rightarrow> p'
      | (Outstanding, p') \<Rightarrow> handleTranscription_settle r p')"

text \<open>\<^verbatim>\<open>handleQuestionAnswer\<close>, lines 46 to 64.\<close>

definition handleQuestionAnswer_start :: "page \<Rightarrow> suspension \<times> page" where
  "handleQuestionAnswer_start p =
     (if \<not> truthy (summary (state p)) \<or> question (state p) = [] then
        (Returned, alert ''Please complete transcription and enter a question.'' p)
      else
        (Outstanding,
         axios_post ''http://localhost:5000/question-ans''
           (Object [(''question'', String (question (state p)))])
           (setLoading True p)))"

definition question_try :: "outcome \<Rightarrow> page \<Rightarrow> js_error + page" where
  "question_try r p =
     (case r of
        Rejected e \<Rightarrow> Inl e
      | Resolved response_data \<Rightarrow>
          (case data_answer response_data of
             Inl e \<Rightarrow> Inl e
           | Inr v \<Rightarrow> Inr (setAnswer v p)))"

definition question_catch :: "js_error \<Rightarrow> page \<Rightarrow> page" where
  "question_catch e p =
     alert ''Failed to fetch the answer.''
       (console_error ''Error fetching answer:'' e p)"

definition handleQuestionAnswer_settle :: "outcome \<Rightarrow> page \<Rightarrow> page" where
  "handleQuestionAnswer_settle r p =
     setLoading False
       (case question_try r p of
          Inr p' \<Rightarrow> p'
        | Inl e \<Rightarrow> question_catch e p)"

definition handleQuestionAnswer :: "outcome \<Rightarrow> page \<Rightarrow> page" where
  "handleQuestionAnswer r p =
     (case handleQuestionAnswer_start p of
        (Returned, p') \<Rightarrow> p'
      | (Outstanding, p') \<Rightarrow> handleQuestionAnswer_settle r p')"

section \<open>The page as the user drives it\<close>

text \<open>The three radio buttons of lines 11 to 24: label and url.\<close>

definition audioFiles :: "(string \<times> string) list" where
  "audioFiles =
     [(''Audio File 1'', ''s3://dax-health-transcribe/Sample_data.mp3''),
      (''Audio File 2'', ''s3://dax-health-transcribe/Sample_data.mp3''),
      (''Audio File 3'', ''s3://dax-health-transcribe/Sample_data.mp3'')]"

text \<open>
  What can happen to the rendered page: a radio button is chosen (line 78), the question
  box is edited (line 106), one of the two buttons is clicked (lines 86 and 110), or the
  promise of a request that is still outstanding settles. Next to the page the model
  keeps the list of handler calls suspended at their \<^verbatim>\<open>await\<close>.
\<close>

datatype handler = Transcription | QuestionAnswer

datatype event =
    ChooseAudio nat
  | TypeQuestion string
  | ClickStartTranscription
  | ClickGetAnswer
  | Settle nat outcome

record browser =
  shown :: page
  outstanding :: "handler list"

text \<open>The \<^verbatim>\<open>disabled\<close> attributes of the two buttons, lines 87 and 111.\<close>

definition start_disabled :: "session \<Rightarrow> bool" where
  "start_disabled s = (selectedAudio s = [] \<or> loading s)"

definition ask_disabled :: "session \<Rightarrow> bool" where
  "ask_disabled s = (question s = [] \<or> loading s)"

definition launch :: "handler \<Rightarrow> suspension \<times> page \<Rightarrow> browser \<Rightarrow> browser" where
  "launch h res b =
     (case res of
        (Returned, p') \<Rightarrow> b\<lparr> shown := p' \<rparr>
      | (Outstanding, p') \<Rightarrow> b\<lparr> shown := p', outstanding := outstanding b @ [h] \<rparr>)"

fun settle :: "handler \<Rightarrow> outcome \<Rightarrow> page \<Rightarrow> page" where
  "settle Transcription r p = handleTranscription_settle r p"
| "settle QuestionAnswer r p = handleQuestionAnswer_settle r p"

text \<open>
  A click on a disabled button fires no handler; \<^verbatim>\<open>Settle i r\<close> settles the \<open>i\<close>-th
  outstanding request with \<open>r\<close> and does nothing when there is none.
\<close>

fun dispatch :: "event \<Rightarrow> browser \<Rightarrow> browser" where
  "dispatch (ChooseAudio i) b =
     (if i < length audioFiles
      then b\<lparr> shown := setSelectedAudio (snd (audioFiles ! i)) (shown b) \<rparr> else b)"
| "dispatch (TypeQuestion v) b = b\<lparr> shown := setQuestion v (shown b) \<rparr>"
| "dispatch ClickStartTranscription b =
     (if start_disabled (state (shown b)) then b
      else launch Transcription (handleTranscription_start (shown b)) b)"
| "dispatch ClickGetAnswer b =
     (if ask_disabled (state (shown b)) then b
      else launch QuestionAnswer (handleQuestionAnswer_start (shown b)) b)"
| "dispatch (Settle i r) b =
     (if i < length (outstanding b)
      then b\<lparr> shown := settle (outstanding b ! i) r (shown b),
              outstanding := take i (outstanding b) @ drop (Suc i) (outstanding b) \<rparr>
      else b)"

definition run :: "event list \<Rightarrow> browser \<Rightarrow> browser" where
  "run evs b = foldl (\<lambda>b e. dispatch e b) b evs"

definition fresh_page :: page where
  "fresh_page = \<lparr> state = initial, trace = [] \<rparr>"

definition boot :: browser where
  "boot = \<lparr> shown = fresh_page, outstanding = [] \<rparr>"

definition busy_inv :: "browser \<Rightarrow> bool" where
  "busy_inv b =
     (loading (state (shown b)) = (outstanding b \<noteq> []) \<and> length (outstanding b) \<le> 1)"

text \<open>Whether a response body is an object with an own property \<^verbatim>\<open>answer\<close>.\<close>

fun has_answer_field :: "jsvalue \<Rightarrow> bool" where
  "has_answer_field (Object kvs) = (map_of kvs ''answer'' \<noteq> None)"
| "has_answer_field v = False"

subsection \<open>Pages of the walk-through scenarios\<close>

definition chosen_page :: page where
  "chosen_page = setSelectedAudio (snd (audioFiles ! 0)) fresh_page"

definition done_hello :: jsvalue where
  "done_hello = Object [(''status'', String ''done''), (''text'', String ''hello'')]"

definition transcribed_page :: page where
  "transcribed_page = handleTranscription (Resolved done_hello) chosen_page"

definition asking_page :: page where
  "asking_page = setQuestion ''What medication?'' transcribed_page"

definition ibuprofen :: jsvalue where
  "ibuprofen = Object [(''answer'', String ''Ibuprofen'')]"

definition answered_page :: page where
  "answered_page = handleQuestionAnswer (Resolved ibuprofen) asking_page"

definition done_bye :: jsvalue where
  "done_bye = Object [(''status'', String ''done''), (''text'', String ''bye'')]"

section \<open>Unfolding rules and the busy invariant\<close>

lemmas setter_defs =
  alert_def console_error_def axios_post_def setSelectedAudio_def setQuestion_def
  setAnswer_def setSummary_def setLoading_def

lemmas transcription_defs =
  handleTranscription_def handleTranscription_start_def handleTranscription_settle_def
  transcription_try_def transcription_catch_def

lemmas question_defs =
  handleQuestionAnswer_def handleQuestionAnswer_start_def handleQuestionAnswer_settle_def
  question_try_def question_catch_def

lemmas scenario_defs =
  fresh_page_def initial_def chosen_page_def done_hello_def transcribed_page_def
  asking_page_def ibuprofen_def answered_page_def done_bye_def audioFiles_def

lemma settle_clears: "\<not> loading (state (settle h r p))"
  by (cases h)
    (simp_all add: handleTranscription_settle_def handleQuestionAnswer_settle_def
      setLoading_def)

text \<open>
  Every event keeps the flag and the outstanding requests in step: the buttons are
  disabled while \<^verbatim>\<open>loading\<close> is true, so a second request never starts beside the first.
\<close>

lemma dispatch_inv: "busy_inv b \<Longrightarrow> busy_inv (dispatch e b)"
proof (cases e)
  case (ChooseAudio i)
  then show "busy_inv b \<Longrightarrow> ?thesis"
    by (simp add: busy_inv_def setSelectedAudio_def)
next
  case (TypeQuestion v)
  then show "busy_inv b \<Longrightarrow> ?thesis"
    by (simp add: busy_inv_def setQuestion_def)
next
  case ClickStartTranscription
  then show "busy_inv b \<Longrightarrow> ?thesis"
    by (auto simp add: busy_inv_def start_disabled_def launch_def
        handleTranscription_start_def setter_defs)
next
  case ClickGetAnswer
  then show "busy_inv b \<Longrightarrow> ?thesis"
    by (auto simp add: busy_inv_def ask_disabled_def launch_def
        handleQuestionAnswer_start_def setter_defs)
next
  case (Settle i r)
  then show "busy_inv b \<Longrightarrow> ?thesis"
    by (auto simp add: busy_inv_def settle_clears)
qed

lemma run_inv: "busy_inv b \<Longrightarrow> busy_inv (run evs b)"
  unfolding run_def by (induction evs arbitrary: b) (simp_all add: dispatch_inv)

lemma boot_inv: "busy_inv boot"
  by (simp add: busy_inv_def boot_def fresh_page_def initial_def)

section \<open>Guards\<close>

text \<open>
  C1. With no audio selected (\<^verbatim>\<open>selectedAudio\<close> is the empty string it starts as),
  \<^verbatim>\<open>handleTranscription\<close> shows the alert "Please select an audio file." and returns:
  whatever the backend would have answered, the page afterwards is the page before with
  that one alert added, the session state is the same, and no request was issued.
\<close>

theorem start_transcription_without_audio:
  assumes "selectedAudio (state p) = []"
  shows "handleTranscription r p
           = p\<lparr> trace := trace p @ [Alert ''Please select an audio file.''] \<rparr>
       \<and> handleTranscription_start p
           = (Returned, p\<lparr> trace := trace p @ [Alert ''Please select an audio file.''] \<rparr>)
       \<and> state (handleTranscription r p) = state p
       \<and> network_calls (trace (handleTranscription r p)) = network_calls (trace p)"
  using assms by (simp add: transcription_defs alert_def network_calls_def)

theorem start_transcription_without_audio_witness:
  "selectedAudio (state fresh_page) = []
 \<and> handleTranscription (Resolved done_hello) fresh_page
     = \<lparr> state = initial, trace = [Alert ''Please select an audio file.''] \<rparr>
 \<and> network_calls (trace (handleTranscription (Resolved done_hello) fresh_page)) = []"
proof -
  have h: "selectedAudio (state fresh_page) = []"
    by (simp add: fresh_page_def initial_def)
  show ?thesis
    using h start_transcription_without_audio [OF h, of "Resolved done_hello"]
    by (simp add: fresh_page_def network_calls_def)
qed

text \<open>
  C2. With the summary unset (\<^verbatim>\<open>null\<close>, or any other falsy value) or the question empty,
  \<^verbatim>\<open>handleQuestionAnswer\<close> shows the alert "Please complete transcription and enter a
  question." and returns: the page afterwards is the page before with that one alert
  added, and no request was issued.
\<close>

theorem ask_question_without_summary_or_question:
  assumes "\<not> truthy (summary (state p)) \<or> question (state p) = []"
  shows "handleQuestionAnswer r p
           = p\<lparr> trace := trace p
                  @ [Alert ''Please complete transcription and enter a question.''] \<rparr>
       \<and> state (handleQuestionAnswer r p) = state p
       \<and> network_calls (trace (handleQuestionAnswer r p)) = network_calls (trace p)"
  using assms by (auto simp add: question_defs alert_def network_calls_def)

theorem ask_question_without_summary_or_question_witness:
  "summary (state (setQuestion ''What medication?'' fresh_page)) = Null
 \<and> handleQuestionAnswer (Resolved ibuprofen)
       (setQuestion ''What medication?'' fresh_page)
     = \<lparr> state = initial\<lparr> question := ''What medication?'' \<rparr>,
         trace = [Alert ''Please complete transcription and enter a question.''] \<rparr>
 \<and> question (state transcribed_page) = []
 \<and> state (handleQuestionAnswer (Resolved ibuprofen) transcribed_page)
     = state transcribed_page
 \<and> network_calls (trace (handleQuestionAnswer (Resolved ibuprofen) transcribed_page))
     = network_calls (trace transcribed_page)"
proof -
  let ?p = "setQuestion ''What medication?'' fresh_page"
  have h: "\<not> truthy (summary (state ?p)) \<or> question (state ?p) = []"
    by (simp add: setQuestion_def fresh_page_def initial_def)
  have q: "question (state transcribed_page) = []"
    by (simp add: scenario_defs transcription_defs setter_defs)
  have g: "\<not> truthy (summary (state transcribed_page))
      \<or> question (state transcribed_page) = []"
    by (simp add: q)
  have w1: "summary (state ?p) = Null
      \<and> handleQuestionAnswer (Resolved ibuprofen) ?p
          = \<lparr> state = initial\<lparr> question := ''What medication?'' \<rparr>,
              trace = [Alert ''Please complete transcription and enter a question.''] \<rparr>"
    using ask_question_without_summary_or_question [OF h, of "Resolved ibuprofen"]
    by (simp add: setQuestion_def fresh_page_def initial_def)
  have w2: "state (handleQuestionAnswer (Resolved ibuprofen) transcribed_page)
        = state transcribed_page
      \<and> network_calls (trace (handleQuestionAnswer (Resolved ibuprofen) transcribed_page))
        = network_calls (trace transcribed_page)"
    using ask_question_without_summary_or_question [OF g, of "Resolved ibuprofen"]
    by blast
  from q w1 w2 show ?thesis by blast
qed

section \<open>The busy flag\<close>

text \<open>
  C3. Both handlers clear \<^verbatim>\<open>loading\<close> in their \<^verbatim>\<open>finally\<close> block: on whatever page the
  promise settles, resolved or rejected, \<^verbatim>\<open>loading\<close> is false afterwards. A handler that
  passes its guard sets \<^verbatim>\<open>loading\<close> before it suspends at the request, so the flag is
  true while the call is outstanding and false when the handler has run to its end. On
  the page as the user drives it (buttons disabled while \<^verbatim>\<open>loading\<close>), after any
  sequence of events \<^verbatim>\<open>loading\<close> is true exactly when a request is outstanding, and
  at most one request is.
\<close>

theorem busy_flag:
  "\<not> loading (state (handleTranscription_settle r q))
 \<and> \<not> loading (state (handleQuestionAnswer_settle r q))
 \<and> (selectedAudio (state p) \<noteq> [] \<longrightarrow>
      fst (handleTranscription_start p) = Outstanding
      \<and> loading (state (snd (handleTranscription_start p)))
      \<and> \<not> loading (state (handleTranscription r p)))
 \<and> (truthy (summary (state p)) \<and> question (state p) \<noteq> [] \<longrightarrow>
      fst (handleQuestionAnswer_start p) = Outstanding
      \<and> loading (state (snd (handleQuestionAnswer_start p)))
      \<and> \<not> loading (state (handleQuestionAnswer r p)))
 \<and> loading (state (shown (run evs boot))) = (outstanding (run evs boot) \<noteq> [])
 \<and> length (outstanding (run evs boot)) \<le> 1"
proof -
  have a: "\<not> loading (state (handleTranscription_settle r q))"
    by (simp add: handleTranscription_settle_def setLoading_def)
  have b: "\<not> loading (state (handleQuestionAnswer_settle r q))"
    by (simp add: handleQuestionAnswer_settle_def setLoading_def)
  have c: "selectedAudio (state p) \<noteq> [] \<longrightarrow>
      fst (handleTranscription_start p) = Outstanding
      \<and> loading (state (snd (handleTranscription_start p)))
      \<and> \<not> loading (state (handleTranscription r p))"
    by (simp add: handleTranscription_def handleTranscription_start_def
        handleTranscription_settle_def setter_defs)
  have d: "truthy (summary (state p)) \<and> question (state p) \<noteq> [] \<longrightarrow>
      fst (handleQuestionAnswer_start p) = Outstanding
      \<and> loading (state (snd (handleQuestionAnswer_start p)))
      \<and> \<not> loading (state (handleQuestionAnswer r p))"
    by (simp add: handleQuestionAnswer_def handleQuestionAnswer_start_def
        handleQuestionAnswer_settle_def setter_defs)
  have e: "loading (state (shown (run evs boot))) = (outstanding (run evs boot) \<noteq> [])"
    using run_inv [OF boot_inv, of evs] by (simp add: busy_inv_def)
  have f: "length (outstanding (run evs boot)) \<le> 1"
    using run_inv [OF boot_inv, of evs] by (simp add: busy_inv_def)
  from a b c d e f show ?thesis by blast
qed

theorem busy_flag_witness:
  "selectedAudio (state asking_page) \<noteq> []
 \<and> truthy (summary (state asking_page))
 \<and> question (state asking_page) \<noteq> []
 \<and> loading (state (snd (handleTranscription_start asking_page)))
 \<and> \<not> loading (state (handleTranscription (Rejected AxiosError) asking_page))
 \<and> loading (state (snd (handleQuestionAnswer_start asking_page)))
 \<and> \<not> loading (state (handleQuestionAnswer (Rejected AxiosError) asking_page))
 \<and> outstanding (run [ChooseAudio 0, ClickStartTranscription, TypeQuestion ''Why?''] boot)
     = [Transcription]
 \<and> loading (state (shown
       (run [ChooseAudio 0, ClickStartTranscription, TypeQuestion ''Why?''] boot)))"
proof -
  let ?evs = "[ChooseAudio 0, ClickStartTranscription, TypeQuestion ''Why?'']"
  have h1: "selectedAudio (state asking_page) \<noteq> []"
    by (simp add: scenario_defs transcription_defs setter_defs)
  have h2: "truthy (summary (state asking_page))"
    by (simp add: scenario_defs transcription_defs setter_defs)
  have h3: "question (state asking_page) \<noteq> []"
    by (simp add: scenario_defs transcription_defs setter_defs)
  have o: "outstanding (run ?evs boot) = [Transcription]"
    by (simp add: run_def boot_def scenario_defs start_disabled_def launch_def
        handleTranscription_start_def setter_defs)
  show ?thesis
    using h1 h2 h3 o
      busy_flag [of "Rejected AxiosError" asking_page asking_page ?evs]
    by simp
qed

section \<open>Starting a transcription\<close>

text \<open>
  C4. With an audio file selected, when the request of \<^verbatim>\<open>handleTranscription\<close> resolves,
  \<^verbatim>\<open>summary\<close> is the response body itself, whatever value that is: the session afterwards
  is the session before with \<^verbatim>\<open>summary\<close> replaced by the body and \<^verbatim>\<open>loading\<close> false. The
  same holds on whatever page the response arrives.
\<close>

theorem transcription_success_stores_body:
  assumes "selectedAudio (state p) \<noteq> []"
  shows "summary (state (handleTranscription (Resolved d) p)) = d
       \<and> state (handleTranscription (Resolved d) p)
           = (state p)\<lparr> summary := d, loading := False \<rparr>
       \<and> summary (state (handleTranscription_settle (Resolved d) q)) = d"
  using assms by (simp add: transcription_defs setter_defs)

theorem transcription_success_stores_body_witness:
  "selectedAudio (state chosen_page) \<noteq> []
 \<and> summary (state (handleTranscription (Resolved done_hello) chosen_page))
     = Object [(''status'', String ''done''), (''text'', String ''hello'')]
 \<and> \<not> loading (state (handleTranscription (Resolved done_hello) chosen_page))"
proof -
  have h: "selectedAudio (state chosen_page) \<noteq> []"
    by (simp add: scenario_defs setter_defs)
  show ?thesis
    using h transcription_success_stores_body [OF h, of done_hello chosen_page]
    by (simp add: done_hello_def)
qed

text \<open>
  C5. With an audio file selected, when the request of \<^verbatim>\<open>handleTranscription\<close> is
  rejected, the error is logged, the alert "Failed to process the audio file." is shown
  and \<^verbatim>\<open>summary\<close> keeps the value it had before, unset or an earlier response. The same
  holds on whatever page the rejection arrives.
\<close>

theorem transcription_failure_keeps_summary:
  assumes "selectedAudio (state p) \<noteq> []"
  shows "summary (state (handleTranscription (Rejected e) p)) = summary (state p)
       \<and> trace (handleTranscription (Rejected e) p)
           = trace p @
             [Post ''http://localhost:5000/start-transcription''
                (Object [(''audioUrl'', String (selectedAudio (state p)))]),
              ConsoleError ''Error starting transcription:'' e,
              Alert ''Failed to process the audio file.'']
       \<and> summary (state (handleTranscription_settle (Rejected e) q)) = summary (state q)
       \<and> trace (handleTranscription_settle (Rejected e) q)
           = trace q @
             [ConsoleError ''Error starting transcription:'' e,
              Alert ''Failed to process the audio file.'']"
  using assms by (simp add: transcription_defs setter_defs)

theorem transcription_failure_keeps_summary_witness:
  "selectedAudio (state chosen_page) \<noteq> []
 \<and> summary (state (handleTranscription (Rejected AxiosError) chosen_page)) = Null
 \<and> selectedAudio (state transcribed_page) \<noteq> []
 \<and> summary (state (handleTranscription (Rejected AxiosError) transcribed_page))
     = Object [(''status'', String ''done''), (''text'', String ''hello'')]
 \<and> last (trace (handleTranscription (Rejected AxiosError) transcribed_page))
     = Alert ''Failed to process the audio file.''"
proof -
  have h1: "selectedAudio (state chosen_page) \<noteq> []"
    by (simp add: scenario_defs setter_defs)
  have h2: "selectedAudio (state transcribed_page) \<noteq> []"
    by (simp add: scenario_defs transcription_defs setter_defs)
  have s1: "summary (state chosen_page) = Null"
    by (simp add: scenario_defs setter_defs)
  have s2: "summary (state transcribed_page)
      = Object [(''status'', String ''done''), (''text'', String ''hello'')]"
    by (simp add: scenario_defs transcription_defs setter_defs)
  show ?thesis
    using h1 h2 s1 s2
      transcription_failure_keeps_summary [OF h1, of AxiosError chosen_page]
      transcription_failure_keeps_summary [OF h2, of AxiosError transcribed_page]
    by simp
qed

text \<open>
  C8. With an audio file selected, two runs of \<^verbatim>\<open>handleTranscription\<close> one after the
  other, both resolved, leave \<^verbatim>\<open>summary\<close> equal to the second response alone: the session
  is the one before the first run with \<^verbatim>\<open>summary\<close> replaced by the second body, the same
  session a single run with the second response gives. Nothing of the first response
  remains.
\<close>

theorem transcription_twice_keeps_latest:
  assumes "selectedAudio (state p) \<noteq> []"
  shows "summary (state (handleTranscription (Resolved d2)
                    (handleTranscription (Resolved d1) p))) = d2
       \<and> state (handleTranscription (Resolved d2) (handleTranscription (Resolved d1) p))
           = (state p)\<lparr> summary := d2, loading := False \<rparr>
       \<and> state (handleTranscription (Resolved d2) (handleTranscription (Resolved d1) p))
           = state (handleTranscription (Resolved d2) p)"
  using assms by (simp add: transcription_defs setter_defs)

theorem transcription_twice_keeps_latest_witness:
  "selectedAudio (state chosen_page) \<noteq> []
 \<and> summary (state (handleTranscription (Resolved done_bye)
                (handleTranscription (Resolved done_hello) chosen_page)))
     = Object [(''status'', String ''done''), (''text'', String ''bye'')]"
proof -
  have h: "selectedAudio (state chosen_page) \<noteq> []"
    by (simp add: scenario_defs setter_defs)
  show ?thesis
    using h transcription_twice_keeps_latest [OF h, of done_bye done_hello]
    by (simp add: done_bye_def)
qed

text \<open>
  C9. Whatever the outcome of \<^verbatim>\<open>handleTranscription\<close> (return at the guard, resolved or
  rejected request), \<^verbatim>\<open>answer\<close>, \<^verbatim>\<open>question\<close> and \<^verbatim>\<open>selectedAudio\<close> are what they were
  before; so are they across the part of the handler that runs when the promise settles.
\<close>

theorem transcription_frame:
  "answer (state (handleTranscription r p)) = answer (state p)
 \<and> question (state (handleTranscription r p)) = question (state p)
 \<and> selectedAudio (state (handleTranscription r p)) = selectedAudio (state p)
 \<and> answer (state (handleTranscription_settle r p)) = answer (state p)
 \<and> question (state (handleTranscription_settle r p)) = question (state p)
 \<and> selectedAudio (state (handleTranscription_settle r p)) = selectedAudio (state p)"
  by (cases r) (simp_all add: transcription_defs setter_defs)

theorem transcription_frame_witness:
  "answer (state (handleTranscription (Resolved done_bye) answered_page))
     = String ''Ibuprofen''
 \<and> question (state (handleTranscription (Resolved done_bye) answered_page))
     = ''What medication?''
 \<and> selectedAudio (state (handleTranscription (Resolved done_bye) answered_page))
     = ''s3://dax-health-transcribe/Sample_data.mp3''"
proof -
  have a: "answer (state answered_page) = String ''Ibuprofen''"
    by (simp add: scenario_defs transcription_defs question_defs setter_defs)
  have q: "question (state answered_page) = ''What medication?''"
    by (simp add: scenario_defs transcription_defs question_defs setter_defs)
  have s: "selectedAudio (state answered_page)
      = ''s3://dax-health-transcribe/Sample_data.mp3''"
    by (simp add: scenario_defs transcription_defs question_defs setter_defs)
  show ?thesis
    using a q s transcription_frame [of "Resolved done_bye" answered_page]
    by simp
qed

section \<open>Asking a question\<close>

text \<open>
  C6, as the code has it. With a summary present and a question entered: when the
  request of \<^verbatim>\<open>handleQuestionAnswer\<close> resolves with a body that is neither \<^verbatim>\<open>null\<close> nor
  \<^verbatim>\<open>undefined\<close>, \<^verbatim>\<open>answer\<close> is what the read of the body's \<^verbatim>\<open>answer\<close> field gives, so
  for an object with that field it is the field's value; when the request is rejected,
  the error is logged, the alert "Failed to fetch the answer." is shown and \<^verbatim>\<open>answer\<close>
  is what it was before.
\<close>

theorem question_answer_outcomes:
  assumes "truthy (summary (state p))" and "question (state p) \<noteq> []"
  shows "(d \<noteq> Null \<and> d \<noteq> Undefined \<longrightarrow>
            data_answer d = Inr (answer (state (handleQuestionAnswer (Resolved d) p))))
       \<and> (map_of kvs ''answer'' = Some v \<longrightarrow>
            answer (state (handleQuestionAnswer (Resolved (Object kvs)) p)) = v)
       \<and> answer (state (handleQuestionAnswer (Rejected e) p)) = answer (state p)
       \<and> trace (handleQuestionAnswer (Rejected e) p)
           = trace p @
             [Post ''http://localhost:5000/question-ans''
                (Object [(''question'', String (question (state p)))]),
              ConsoleError ''Error fetching answer:'' e,
              Alert ''Failed to fetch the answer.'']"
proof -
  have "data_answer d = Inr (answer (state (handleQuestionAnswer (Resolved d) p)))"
    if "d \<noteq> Null" and "d \<noteq> Undefined"
    using assms that
    by (cases d) (simp_all add: question_defs setter_defs split: option.splits)
  moreover have "answer (state (handleQuestionAnswer (Resolved (Object kvs)) p)) = v"
    if "map_of kvs ''answer'' = Some v"
    using assms that by (simp add: question_defs setter_defs)
  moreover have "answer (state (handleQuestionAnswer (Rejected e) p)) = answer (state p)"
    using assms by (simp add: question_defs setter_defs)
  moreover have "trace (handleQuestionAnswer (Rejected e) p)
      = trace p @
        [Post ''http://localhost:5000/question-ans''
           (Object [(''question'', String (question (state p)))]),
         ConsoleError ''Error fetching answer:'' e,
         Alert ''Failed to fetch the answer.'']"
    using assms by (simp add: question_defs setter_defs)
  ultimately show ?thesis by blast
qed

theorem question_answer_outcomes_witness:
  "truthy (summary (state asking_page))
 \<and> question (state asking_page) = ''What medication?''
 \<and> map_of [(''answer'', String ''Ibuprofen'')] ''answer'' = Some (String ''Ibuprofen'')
 \<and> answer (state (handleQuestionAnswer (Resolved ibuprofen) asking_page))
     = String ''Ibuprofen''
 \<and> data_answer done_bye
     = Inr (answer (state (handleQuestionAnswer (Resolved done_bye) asking_page)))
 \<and> answer (state (handleQuestionAnswer (Rejected AxiosError) answered_page))
     = String ''Ibuprofen''"
proof -
  have h1: "truthy (summary (state asking_page))"
    by (simp add: scenario_defs transcription_defs setter_defs)
  have h2: "question (state asking_page) = ''What medication?''"
    by (simp add: scenario_defs transcription_defs setter_defs)
  have h3: "question (state asking_page) \<noteq> []"
    by (simp add: h2)
  have h4: "map_of [(''answer'', String ''Ibuprofen'')] ''answer''
      = Some (String ''Ibuprofen'')"
    by simp
  have h5: "done_bye \<noteq> Null \<and> done_bye \<noteq> Undefined"
    by (simp add: done_bye_def)
  have g1: "truthy (summary (state answered_page))"
    by (simp add: scenario_defs transcription_defs question_defs setter_defs)
  have g2: "question (state answered_page) \<noteq> []"
    by (simp add: scenario_defs transcription_defs question_defs setter_defs)
  have g3: "answer (state answered_page) = String ''Ibuprofen''"
    by (simp add: scenario_defs transcription_defs question_defs setter_defs)
  show ?thesis
    using h1 h2 h4 h5 g3
      question_answer_outcomes
        [OF h1 h3, of done_bye "[(''answer'', String ''Ibuprofen'')]" "String ''Ibuprofen''"]
      question_answer_outcomes [OF g1 g2, of _ _ _ AxiosError]
    by (simp add: ibuprofen_def)
qed

text \<open>
  C6 as it is worded fails when the request resolves with the body \<^verbatim>\<open>null\<close>: the read
  \<^verbatim>\<open>response.data.answer\<close> throws a TypeError, so nothing is stored; the \<^verbatim>\<open>catch\<close> block
  logs it and shows "Failed to fetch the answer.", and the session is what it was.
\<close>

theorem null_body_reports_answer_error:
  "truthy (summary (state asking_page))
 \<and> question (state asking_page) \<noteq> []
 \<and> data_answer Null = Inl TypeError
 \<and> data_answer Null
     \<noteq> Inr (answer (state (handleQuestionAnswer (Resolved Null) asking_page)))
 \<and> state (handleQuestionAnswer (Resolved Null) asking_page) = state asking_page
 \<and> trace (handleQuestionAnswer (Resolved Null) asking_page)
     = trace asking_page @
       [Post ''http://localhost:5000/question-ans''
          (Object [(''question'', String ''What medication?'')]),
        ConsoleError ''Error fetching answer:'' TypeError,
        Alert ''Failed to fetch the answer.'']"
  by (simp add: scenario_defs transcription_defs question_defs setter_defs)

text \<open>
  C7. Every run of \<^verbatim>\<open>handleQuestionAnswer\<close> issues at most one request: none when it
  returns at the guard, and otherwise one post to the question-answer address whose body
  is the object with the single field \<^verbatim>\<open>question\<close> holding the question text. Neither
  the summary nor any identifier is part of that body.
\<close>

theorem question_request_body:
  "network_calls (trace (handleQuestionAnswer r p))
     = network_calls (trace p) @
       (if \<not> truthy (summary (state p)) \<or> question (state p) = [] then []
        else [Post ''http://localhost:5000/question-ans''
                (Object [(''question'', String (question (state p)))])])"
proof (cases "\<not> truthy (summary (state p)) \<or> question (state p) = []")
  case True
  then show ?thesis
    by (auto simp add: question_defs alert_def network_calls_def)
next
  case False
  have "network_calls (trace (handleQuestionAnswer_settle r q)) = network_calls (trace q)"
    for q
    by (simp add: handleQuestionAnswer_settle_def question_try_def question_catch_def
        setter_defs network_calls_def split: outcome.splits sum.splits)
  with False show ?thesis
    by (simp add: handleQuestionAnswer_def handleQuestionAnswer_start_def
        axios_post_def setLoading_def network_calls_def)
qed

theorem question_request_body_witness:
  "network_calls (trace (handleQuestionAnswer (Resolved ibuprofen) asking_page))
     = [Post ''http://localhost:5000/start-transcription''
          (Object [(''audioUrl'', String ''s3://dax-health-transcribe/Sample_data.mp3'')]),
        Post ''http://localhost:5000/question-ans''
          (Object [(''question'', String ''What medication?'')])]
 \<and> network_calls (trace (handleQuestionAnswer (Resolved ibuprofen) fresh_page)) = []"
proof -
  have h1: "truthy (summary (state asking_page))"
    by (simp add: scenario_defs transcription_defs setter_defs)
  have h2: "question (state asking_page) = ''What medication?''"
    by (simp add: scenario_defs transcription_defs setter_defs)
  have t: "network_calls (trace asking_page)
      = [Post ''http://localhost:5000/start-transcription''
          (Object [(''audioUrl'', String ''s3://dax-health-transcribe/Sample_data.mp3'')])]"
    by (simp add: scenario_defs transcription_defs setter_defs network_calls_def)
  have f: "summary (state fresh_page) = Null \<and> trace fresh_page = []"
    by (simp add: fresh_page_def initial_def)
  show ?thesis
    using h1 h2 t f
      question_request_body [of "Resolved ibuprofen" asking_page]
      question_request_body [of "Resolved ibuprofen" fresh_page]
    by (simp add: network_calls_def)
qed

text \<open>
  C10, as the code has it. With a summary present and a question entered, when the
  request resolves with a body that is neither \<^verbatim>\<open>null\<close> nor \<^verbatim>\<open>undefined\<close> and has no
  \<^verbatim>\<open>answer\<close> field, \<^verbatim>\<open>answer\<close> becomes \<^verbatim>\<open>undefined\<close>: nothing checks that the field is
  there before it is stored.
\<close>

theorem missing_answer_field_stores_undefined:
  assumes "truthy (summary (state p))" and "question (state p) \<noteq> []"
    and "d \<noteq> Null" and "d \<noteq> Undefined" and "\<not> has_answer_field d"
  shows "answer (state (handleQuestionAnswer (Resolved d) p)) = Undefined"
  using assms
  by (cases d) (auto simp add: question_defs setter_defs split: option.splits)

theorem missing_answer_field_stores_undefined_witness:
  "truthy (summary (state answered_page))
 \<and> question (state answered_page) = ''What medication?''
 \<and> answer (state answered_page) = String ''Ibuprofen''
 \<and> \<not> has_answer_field done_bye
 \<and> answer (state (handleQuestionAnswer (Resolved done_bye) answered_page)) = Undefined"
proof -
  have h1: "truthy (summary (state answered_page))"
    by (simp add: scenario_defs transcription_defs question_defs setter_defs)
  have h2: "question (state answered_page) = ''What medication?''"
    by (simp add: scenario_defs transcription_defs question_defs setter_defs)
  have h3: "question (state answered_page) \<noteq> []"
    by (simp add: h2)
  have h4: "done_bye \<noteq> Null" and h5: "done_bye \<noteq> Undefined"
    by (simp_all add: done_bye_def)
  have h6: "\<not> has_answer_field done_bye"
    by (simp add: done_bye_def)
  have a: "answer (state answered_page) = String ''Ibuprofen''"
    by (simp add: scenario_defs transcription_defs question_defs setter_defs)
  show ?thesis
    using h1 h2 h6 a missing_answer_field_stores_undefined [OF h1 h3 h4 h5 h6]
    by simp
qed

text \<open>
  C10 as it is worded fails on a \<^verbatim>\<open>null\<close> body, which has no \<^verbatim>\<open>answer\<close> field either:
  the read \<^verbatim>\<open>response.data.answer\<close> throws, the \<^verbatim>\<open>catch\<close> block shows "Failed to fetch
  the answer." and \<^verbatim>\<open>answer\<close> keeps the earlier text instead of becoming \<^verbatim>\<open>undefined\<close>.
\<close>

theorem null_body_keeps_answer:
  "truthy (summary (state answered_page))
 \<and> question (state answered_page) \<noteq> []
 \<and> \<not> has_answer_field Null
 \<and> answer (state (handleQuestionAnswer (Resolved Null) answered_page))
     = String ''Ibuprofen''
 \<and> answer (state (handleQuestionAnswer (Resolved Null) answered_page)) \<noteq> Undefined
 \<and> last (trace (handleQuestionAnswer (Resolved Null) answered_page))
     = Alert ''Failed to fetch the answer.''"
  by (simp add: scenario_defs transcription_defs question_defs setter_defs)

end
